theory Spec2Isabelle
  imports Complex_Main "HOL-Library.Sublist"
begin

section \<open>Data model\<close>

text \<open>
  Identifiers are the strings that \<^verbatim>\<open>_id.toString()\<close> yields on a stored document. A
  string is held as the list of the bytes of its UTF-8 encoding: on well-formed text one
  string occurs in another exactly when the encodings do, and joining strings joins their
  encodings. Scores are JavaScript numbers; every score the service computes is a small
  integer, an integer plus a multiple of 0.5, or an integer times 0.1, and is modelled as an
  exact rational.
\<close>

type_synonym objectId = string

text \<open>\<^verbatim>\<open>IArticle\<close>: \<^verbatim>\<open>summary?: string | null\<close> is \<open>None\<close> when absent or null.\<close>

record article =
  article_id :: objectId
  title :: string
  content :: string
  author :: string
  summary :: "string option"
  article_createdAt :: nat

text \<open>\<^verbatim>\<open>IUser\<close>: the schema gives \<^verbatim>\<open>interests\<close> the default \<^verbatim>\<open>[]\<close>.\<close>

record user =
  user_id :: objectId
  username :: string
  interests :: "string list"

datatype interactionKind = View | Like

text \<open>An interaction as it is stored: \<^verbatim>\<open>articleId\<close> is a reference.\<close>

record interaction =
  userId :: objectId
  articleId :: objectId
  interactionType :: interactionKind
  interaction_createdAt :: nat

text \<open>
  An interaction as the queries of \<^verbatim>\<open>InteractionService\<close> return it. They end in
  \<^verbatim>\<open>.populate('articleId', ...).lean()\<close>, so \<^verbatim>\<open>articleId\<close> is no longer the reference but
  the plain object read from the referenced article, or \<^verbatim>\<open>null\<close> (\<open>None\<close>) when that article
  does not exist. The object holds the selected fields of the article; it is kept whole
  here, the service reading none of them.
\<close>

record populatedInteraction =
  p_userId :: objectId
  p_articleId :: "article option"
  p_interactionType :: interactionKind
  p_createdAt :: nat

text \<open>\<^verbatim>\<open>IRecommendation\<close>; \<^verbatim>\<open>matchedInterests\<close> is optional.\<close>

record recommendation =
  article :: article
  score :: rat
  reason :: string
  matchedInterests :: "string list option"

record responseUser =
  ru_id :: objectId
  ru_username :: string
  ru_interests :: "string list"

record responseMetadata =
  interestBasedCount :: nat
  popularityBasedCount :: nat
  algorithm :: string

text \<open>\<^verbatim>\<open>IRecommendationResponse\<close>.\<close>

record recommendationResponse =
  recommendations :: "recommendation list"
  total :: nat
  user :: responseUser
  metadata :: responseMetadata

text \<open>The three collections the services query.\<close>

record store =
  users :: "user list"
  articles :: "article list"
  interactions :: "interaction list"

text \<open>
  A thrown \<^verbatim>\<open>Error\<close> with its message. A \<^verbatim>\<open>TypeError\<close> and the driver's \<^verbatim>\<open>CastError\<close> are
  instances of \<^verbatim>\<open>Error\<close>, which is all the \<^verbatim>\<open>catch\<close> blocks test.
\<close>

datatype error = Error string

section \<open>JavaScript built-ins used by the service\<close>

text \<open>
  \<^verbatim>\<open>String.prototype.toLowerCase\<close> is a parameter of the Interest Matcher below, named
  \<open>toLowerCase\<close>. On text of ASCII characters it is the following function, at which the
  examples are evaluated.
\<close>

definition toLowerChar :: "char \<Rightarrow> char" where
  "toLowerChar c =
     (let n = (of_char c :: nat)
      in if of_char (CHR ''A'') \<le> n \<and> n \<le> of_char (CHR ''Z'') then char_of (n + 32) else c)"

definition toLowerCaseAscii :: "string \<Rightarrow> string" where
  "toLowerCaseAscii s = map toLowerChar s"

text \<open>\<^verbatim>\<open>String.prototype.includes\<close>: \<open>t\<close> occurs in \<open>s\<close> as a contiguous substring.\<close>

fun includes_str :: "string \<Rightarrow> string \<Rightarrow> bool" where
  "includes_str [] t = (t = [])"
| "includes_str (c # s) t = (prefix t (c # s) \<or> includes_str s t)"

text \<open>\<^verbatim>\<open>Array.prototype.join\<close>.\<close>

fun join :: "string list \<Rightarrow> string \<Rightarrow> string" where
  "join [] sep = []"
| "join [x] sep = x"
| "join (x # y # ys) sep = x @ sep @ join (y # ys) sep"

text \<open>
  \<^verbatim>\<open>xs.slice(0, n)\<close>: a negative end counts from the end of the array.
\<close>

definition slice0 :: "'a list \<Rightarrow> int \<Rightarrow> 'a list" where
  "slice0 xs n = (if n < 0 then take (nat (int (length xs) + n)) xs else take (nat n) xs)"

text \<open>
  \<^verbatim>\<open>xs.sort((a, b) => key(b) - key(a))\<close>: the sort is stable and descending in the key.
\<close>

definition sortDescending :: "('a \<Rightarrow> rat) \<Rightarrow> 'a list \<Rightarrow> 'a list" where
  "sortDescending key xs = sort_key (\<lambda>x. - key x) xs"

text \<open>Decimal rendering of a count inside a template string.\<close>

definition digitChar :: "nat \<Rightarrow> char" where
  "digitChar d = char_of (48 + d)"

function showNat :: "nat \<Rightarrow> string" where
  "showNat n = (if n < 10 then [digitChar n] else showNat (n div 10) @ [digitChar (n mod 10)])"
  by pat_completeness auto
termination
  by (relation "measure (\<lambda>n. n)") auto

text \<open>
  \<^verbatim>\<open>interaction.articleId.toString()\<close> on a populated interaction: the receiver is a plain
  object, whose \<^verbatim>\<open>toString\<close> is \<^verbatim>\<open>Object.prototype.toString\<close>, or \<^verbatim>\<open>null\<close>, on which the
  call throws a \<^verbatim>\<open>TypeError\<close>.
\<close>

definition nullToStringMessage :: string where
  "nullToStringMessage =
     ''Cannot read properties of null (reading '' @ [CHR 0x27] @ ''toString'' @ [CHR 0x27] @ '')''"

definition articleIdToString :: "article option \<Rightarrow> error + string" where
  "articleIdToString r =
     (case r of None \<Rightarrow> Inl (Error nullToStringMessage) | Some a \<Rightarrow> Inr ''[object Object]'')"

text \<open>\<^verbatim>\<open>xs.map(f)\<close> for a callback that may throw: the first exception ends the call.\<close>

fun mapThrowing :: "('a \<Rightarrow> error + 'b) \<Rightarrow> 'a list \<Rightarrow> error + 'b list" where
  "mapThrowing f [] = Inr []"
| "mapThrowing f (x # xs) =
     (case f x of
        Inl e \<Rightarrow> Inl e
      | Inr y \<Rightarrow> (case mapThrowing f xs of Inl e \<Rightarrow> Inl e | Inr ys \<Rightarrow> Inr (y # ys)))"

section \<open>Interest Matcher\<close>

text \<open>
  The text the first test of the inner loop runs against:
  \<^verbatim>\<open>[article.title, article.content, article.summary || ''].join(' ').toLowerCase()\<close>.
\<close>

definition summaryOrEmpty :: "article \<Rightarrow> string" where
  "summaryOrEmpty a = (case summary a of None \<Rightarrow> [] | Some s \<Rightarrow> s)"

definition articleText :: "(string \<Rightarrow> string) \<Rightarrow> article \<Rightarrow> string" where
  "articleText toLowerCase a = toLowerCase (join [title a, content a, summaryOrEmpty a] '' '')"

definition titleIncludes :: "(string \<Rightarrow> string) \<Rightarrow> article \<Rightarrow> string \<Rightarrow> bool" where
  "titleIncludes toLowerCase a interestLower = includes_str (toLowerCase (title a)) interestLower"

text \<open>\<^verbatim>\<open>article.summary?.toLowerCase().includes(interestLower)\<close> is falsy without a summary.\<close>

definition summaryIncludes :: "(string \<Rightarrow> string) \<Rightarrow> article \<Rightarrow> string \<Rightarrow> bool" where
  "summaryIncludes toLowerCase a interestLower =
     (case summary a of None \<Rightarrow> False | Some s \<Rightarrow> includes_str (toLowerCase s) interestLower)"

definition contentIncludes :: "(string \<Rightarrow> string) \<Rightarrow> article \<Rightarrow> string \<Rightarrow> bool" where
  "contentIncludes toLowerCase a interestLower = includes_str (toLowerCase (content a)) interestLower"

text \<open>What one matched interest adds to \<^verbatim>\<open>score\<close>.\<close>

definition fieldPoints :: "(string \<Rightarrow> string) \<Rightarrow> article \<Rightarrow> string \<Rightarrow> rat" where
  "fieldPoints toLowerCase a interestLower =
     (if titleIncludes toLowerCase a interestLower then 3 else 0)
     + (if summaryIncludes toLowerCase a interestLower then 2 else 0)
     + (if contentIncludes toLowerCase a interestLower then 1 else 0)"

text \<open>
  The loop \<^verbatim>\<open>for (const interest of userInterests)\<close>; the state is
  \<^verbatim>\<open>(matchedInterests, score)\<close>.
\<close>

fun interestLoop ::
  "(string \<Rightarrow> string) \<Rightarrow> article \<Rightarrow> string list \<Rightarrow> string list \<times> rat \<Rightarrow> string list \<times> rat" where
  "interestLoop toLowerCase a [] st = st"
| "interestLoop toLowerCase a (interest # rest) (matched, sc) =
     (if includes_str (articleText toLowerCase a) (toLowerCase interest)
      then interestLoop toLowerCase a rest
             (matched @ [interest], sc + fieldPoints toLowerCase a (toLowerCase interest))
      else interestLoop toLowerCase a rest (matched, sc))"

text \<open>The body of \<^verbatim>\<open>for (const article of articles)\<close>: at most one recommendation is pushed.\<close>

definition scoreArticle ::
  "(string \<Rightarrow> string) \<Rightarrow> string list \<Rightarrow> article \<Rightarrow> recommendation option" where
  "scoreArticle toLowerCase userInterests a =
     (case interestLoop toLowerCase a userInterests ([], 0) of (matched, sc) \<Rightarrow>
        if length matched > 0
        then Some \<lparr>article = a,
                   score = sc + of_nat (length matched) * (1 / 2),
                   reason = ''Matches your interests: '' @ join matched '', '',
                   matchedInterests = Some matched\<rparr>
        else None)"

definition getInterestBasedRecommendations ::
  "(string \<Rightarrow> string) \<Rightarrow> user \<Rightarrow> article list \<Rightarrow> int \<Rightarrow> recommendation list" where
  "getInterestBasedRecommendations toLowerCase u arts limit =
     (if length (interests u) = 0 then []
      else slice0 (sortDescending score
                     (List.map_filter (scoreArticle toLowerCase (interests u)) arts)) limit)"

section \<open>Store queries\<close>

text \<open>\<^verbatim>\<open>.sort({ createdAt: -1 })\<close>.\<close>

definition newestFirst :: "('a \<Rightarrow> nat) \<Rightarrow> 'a list \<Rightarrow> 'a list" where
  "newestFirst created xs = sort_key (\<lambda>x. - int (created x)) xs"

text \<open>\<^verbatim>\<open>.skip(offset).limit(limit)\<close>.\<close>

definition skipLimit :: "nat \<Rightarrow> nat \<Rightarrow> 'a list \<Rightarrow> 'a list" where
  "skipLimit offset limit xs = take limit (drop offset xs)"

text \<open>
  \<^verbatim>\<open>findById(id)\<close> first casts the string to an ObjectId, which takes 24 hexadecimal
  digits, and throws a \<^verbatim>\<open>CastError\<close> otherwise. (Some versions of the driver also cast a
  string of 12 characters; the strings the services pass here have 24 hexadecimal digits, or
  are \<^verbatim>\<open>[object Object]\<close>, of 15 characters.)
\<close>

definition isHexDigit :: "char \<Rightarrow> bool" where
  "isHexDigit c =
     (let n = (of_char c :: nat)
      in (48 \<le> n \<and> n \<le> 57) \<or> (97 \<le> n \<and> n \<le> 102) \<or> (65 \<le> n \<and> n \<le> 70))"

definition castsToObjectId :: "string \<Rightarrow> bool" where
  "castsToObjectId s = (length s = 24 \<and> list_all isHexDigit s)"

definition castErrorMessage :: "string \<Rightarrow> string \<Rightarrow> string" where
  "castErrorMessage v model =
     ''Cast to ObjectId failed for value '' @ [CHR 0x22] @ v @ [CHR 0x22]
       @ '' (type string) at path '' @ [CHR 0x22] @ ''_id'' @ [CHR 0x22]
       @ '' for model '' @ [CHR 0x22] @ model @ [CHR 0x22]"

text \<open>
  \<^verbatim>\<open>UserService.getUserById\<close>: \<^verbatim>\<open>User.findById(id)\<close>, \<open>None\<close> for \<^verbatim>\<open>null\<close>; the \<^verbatim>\<open>catch\<close>
  block rethrows with a prefixed message.
\<close>

definition getUserById :: "store \<Rightarrow> string \<Rightarrow> error + user option" where
  "getUserById st i =
     (if castsToObjectId i then Inr (find (\<lambda>u. user_id u = i) (users st))
      else Inl (Error (''Failed to retrieve user: '' @ castErrorMessage i ''User'')))"

text \<open>\<^verbatim>\<open>ArticleService.getArticles\<close>; the value is the \<^verbatim>\<open>data\<close> field of the page.\<close>

definition getArticles :: "store \<Rightarrow> nat \<Rightarrow> nat \<Rightarrow> article list" where
  "getArticles st limit offset = skipLimit offset limit (newestFirst article_createdAt (articles st))"

text \<open>\<^verbatim>\<open>ArticleService.getArticleById\<close>: \<^verbatim>\<open>Article.findById(id)\<close>, rethrowing likewise.\<close>

definition getArticleById :: "store \<Rightarrow> string \<Rightarrow> error + article option" where
  "getArticleById st i =
     (if castsToObjectId i then Inr (find (\<lambda>a. article_id a = i) (articles st))
      else Inl (Error (''Failed to retrieve article: '' @ castErrorMessage i ''Article'')))"

text \<open>\<^verbatim>\<open>.populate('articleId', ...)\<close> on a lean query result.\<close>

definition populateArticleId :: "store \<Rightarrow> interaction \<Rightarrow> populatedInteraction" where
  "populateArticleId st i =
     \<lparr>p_userId = userId i,
      p_articleId = find (\<lambda>a. article_id a = articleId i) (articles st),
      p_interactionType = interactionType i,
      p_createdAt = interaction_createdAt i\<rparr>"

text \<open>
  \<^verbatim>\<open>InteractionService.getInteractionsByUser\<close>; the value is the \<^verbatim>\<open>interactions\<close> field.
\<close>

definition getInteractionsByUser ::
  "store \<Rightarrow> objectId \<Rightarrow> nat \<Rightarrow> nat \<Rightarrow> populatedInteraction list" where
  "getInteractionsByUser st uid limit offset =
     map (populateArticleId st)
       (skipLimit offset limit
          (newestFirst interaction_createdAt (filter (\<lambda>i. userId i = uid) (interactions st))))"

text \<open>
  \<^verbatim>\<open>InteractionService.getAllInteractions\<close>. It populates \<^verbatim>\<open>userId\<close> as well, which the
  service does not read.
\<close>

definition getAllInteractions :: "store \<Rightarrow> nat \<Rightarrow> nat \<Rightarrow> populatedInteraction list" where
  "getAllInteractions st limit offset =
     map (populateArticleId st)
       (skipLimit offset limit (newestFirst interaction_createdAt (interactions st)))"

record counts =
  views :: nat
  likes :: nat

record stats = counts +
  totalInteractions :: nat

text \<open>\<^verbatim>\<open>InteractionService.getInteractionStats\<close>: three \<^verbatim>\<open>countDocuments\<close> queries.\<close>

definition getInteractionStats :: "store \<Rightarrow> objectId \<Rightarrow> stats" where
  "getInteractionStats st aid =
     \<lparr>views = length (filter (\<lambda>i. articleId i = aid \<and> interactionType i = View) (interactions st)),
      likes = length (filter (\<lambda>i. articleId i = aid \<and> interactionType i = Like) (interactions st)),
      totalInteractions = length (filter (\<lambda>i. articleId i = aid) (interactions st))\<rparr>"

section \<open>Popularity Ranker\<close>

record articleStat =
  stat_article :: article
  stat_stats :: stats
  popularityScore :: nat

definition popularityReason :: "stats \<Rightarrow> string" where
  "popularityReason s =
     (if likes s > 0 \<and> views s > 0
      then ''Popular article ('' @ showNat (likes s) @ '' likes, '' @ showNat (views s) @ '' views)''
      else if likes s > 0 then ''Well-liked article ('' @ showNat (likes s) @ '' likes)''
      else if views s > 0 then ''Trending article ('' @ showNat (views s) @ '' views)''
      else ''Popular article'')"

definition articleStats :: "store \<Rightarrow> article list \<Rightarrow> articleStat list" where
  "articleStats st arts =
     map (\<lambda>a. let s = getInteractionStats st (article_id a)
              in \<lparr>stat_article = a, stat_stats = s, popularityScore = likes s * 2 + views s\<rparr>) arts"

definition getPopularityBasedRecommendations ::
  "store \<Rightarrow> article list \<Rightarrow> int \<Rightarrow> recommendation list" where
  "getPopularityBasedRecommendations st arts limit =
     (let sortedByPopularity =
            slice0 (sortDescending (\<lambda>item. of_nat (popularityScore item))
                      (filter (\<lambda>item. popularityScore item > 0) (articleStats st arts))) limit
      in map (\<lambda>item. \<lparr>article = stat_article item,
                       score = of_nat (popularityScore item) * (1 / 10),
                       reason = popularityReason (stat_stats item),
                       matchedInterests = None\<rparr>) sortedByPopularity)"

section \<open>Recommendation Engine\<close>

text \<open>
  The set \<^verbatim>\<open>viewedArticleIds\<close>: the \<^verbatim>\<open>toString()\<close> of the \<^verbatim>\<open>articleId\<close> of every view
  among the user's 1000 most recent interactions.
\<close>

definition viewedArticleIds :: "store \<Rightarrow> objectId \<Rightarrow> error + string set" where
  "viewedArticleIds st uid =
     (case mapThrowing (\<lambda>i. articleIdToString (p_articleId i))
             (filter (\<lambda>i. p_interactionType i = View) (getInteractionsByUser st uid 1000 0)) of
        Inl e \<Rightarrow> Inl e
      | Inr ids \<Rightarrow> Inr (set ids))"

definition unviewedArticles :: "store \<Rightarrow> string set \<Rightarrow> article list" where
  "unviewedArticles st viewed = filter (\<lambda>a. article_id a \<notin> viewed) (getArticles st 1000 0)"

text \<open>
  \<^verbatim>\<open>Math.ceil(limit * 0.6)\<close>. For the integer limits the service is called with, the
  floating-point product rounds to an integer exactly when \<open>3 * limit / 5\<close> is one, so the
  ceiling is that of the exact product.
\<close>

definition interestBasedLimit :: "int \<Rightarrow> int" where
  "interestBasedLimit limit = \<lceil>of_int limit * (6 / 10 :: rat)\<rceil>"

definition recommendationIds :: "recommendation list \<Rightarrow> objectId list" where
  "recommendationIds rs = map (\<lambda>r. article_id (article r)) rs"

text \<open>The second pass, run when \<^verbatim>\<open>popularityBasedLimit > 0\<close>.\<close>

definition popularityPass ::
  "store \<Rightarrow> string set \<Rightarrow> recommendation list \<Rightarrow> int \<Rightarrow> recommendation list" where
  "popularityPass st viewed interestRecommendations popularityBasedLimit =
     (if popularityBasedLimit > 0
      then (let excludeIds = viewed \<union> set (recommendationIds interestRecommendations)
            in getPopularityBasedRecommendations st
                 (filter (\<lambda>a. article_id a \<notin> excludeIds) (unviewedArticles st viewed))
                 popularityBasedLimit)
      else [])"

text \<open>The body of the \<^verbatim>\<open>try\<close> block of \<^verbatim>\<open>getRecommendationsForUser\<close>.\<close>

definition generateRecommendations ::
  "(string \<Rightarrow> string) \<Rightarrow> store \<Rightarrow> string \<Rightarrow> int \<Rightarrow> error + recommendationResponse" where
  "generateRecommendations toLowerCase st uid limit =
     (case getUserById st uid of
        Inl e \<Rightarrow> Inl e
      | Inr None \<Rightarrow> Inl (Error ''User not found'')
      | Inr (Some u) \<Rightarrow>
          (case viewedArticleIds st uid of
             Inl e \<Rightarrow> Inl e
           | Inr viewed \<Rightarrow>
               (let interestRecommendations =
                      getInterestBasedRecommendations toLowerCase u (unviewedArticles st viewed)
                        (interestBasedLimit limit);
                    popularityBasedLimit = limit - int (length interestRecommendations);
                    recs = interestRecommendations
                             @ popularityPass st viewed interestRecommendations popularityBasedLimit;
                    sortedRecommendations = slice0 (sortDescending score recs) limit
                in Inr \<lparr>recommendations = sortedRecommendations,
                        total = length sortedRecommendations,
                        user = \<lparr>ru_id = user_id u, ru_username = username u,
                                ru_interests = interests u\<rparr>,
                        metadata = \<lparr>interestBasedCount = length interestRecommendations,
                                    popularityBasedCount =
                                      length recs - length interestRecommendations,
                                    algorithm = ''rule-based-v1''\<rparr>\<rparr>)))"

text \<open>
  \<^verbatim>\<open>getRecommendationsForUser(userId, limit = 10)\<close>: the \<^verbatim>\<open>catch\<close> block rethrows with a
  prefixed message. The controller, its only caller, always passes \<^verbatim>\<open>limit\<close>.
\<close>

definition getRecommendationsForUser ::
  "(string \<Rightarrow> string) \<Rightarrow> store \<Rightarrow> string \<Rightarrow> int \<Rightarrow> error + recommendationResponse" where
  "getRecommendationsForUser toLowerCase st uid limit =
     (case generateRecommendations toLowerCase st uid limit of
        Inl (Error m) \<Rightarrow> Inl (Error (''Failed to generate recommendations: '' @ m))
      | Inr response \<Rightarrow> Inr response)"

section \<open>Trending Aggregator\<close>

text \<open>
  \<^verbatim>\<open>Map<string, { views; likes }>\<close>: an association list in insertion order, which is the
  order \<^verbatim>\<open>entries()\<close> iterates in; \<^verbatim>\<open>set\<close> on a present key keeps its position.
\<close>

type_synonym countMap = "(string \<times> counts) list"

fun map_set :: "string \<Rightarrow> counts \<Rightarrow> countMap \<Rightarrow> countMap" where
  "map_set k v [] = [(k, v)]"
| "map_set k v ((k', v') # m) = (if k' = k then (k, v) # m else (k', v') # map_set k v m)"

text \<open>The first loop; the key is \<^verbatim>\<open>interaction.articleId.toString()\<close>.\<close>

fun countInteractions :: "countMap \<Rightarrow> populatedInteraction list \<Rightarrow> error + countMap" where
  "countInteractions m [] = Inr m"
| "countInteractions m (i # rest) =
     (case articleIdToString (p_articleId i) of
        Inl e \<Rightarrow> Inl e
      | Inr k \<Rightarrow>
          (let current = (case map_of m k of None \<Rightarrow> \<lparr>views = 0, likes = 0\<rparr> | Some c \<Rightarrow> c);
               current' = (case p_interactionType i of
                             View \<Rightarrow> current\<lparr>views := views current + 1\<rparr>
                           | Like \<Rightarrow> current\<lparr>likes := likes current + 1\<rparr>)
           in countInteractions (map_set k current' m) rest))"

text \<open>
  The body of the second loop: an article that does not resolve, or a lookup that throws, is
  skipped.
\<close>

definition trendingEntry :: "store \<Rightarrow> string \<times> counts \<Rightarrow> recommendation option" where
  "trendingEntry st e =
     (case getArticleById st (fst e) of
        Inl err \<Rightarrow> None
      | Inr None \<Rightarrow> None
      | Inr (Some a) \<Rightarrow>
          Some \<lparr>article = a,
                score = of_nat (likes (snd e) * 3 + views (snd e)),
                reason = ''Trending now ('' @ showNat (likes (snd e)) @ '' likes, ''
                           @ showNat (views (snd e)) @ '' views)'',
                matchedInterests = None\<rparr>)"

text \<open>\<^verbatim>\<open>getTrendingArticles(limit = 5)\<close>; the outer \<^verbatim>\<open>catch\<close> block rethrows.\<close>

definition getTrendingArticles :: "store \<Rightarrow> int \<Rightarrow> error + recommendation list" where
  "getTrendingArticles st limit =
     (case countInteractions [] (getAllInteractions st 1000 0) of
        Inl (Error m) \<Rightarrow> Inl (Error (''Failed to get trending articles: '' @ m))
      | Inr articleInteractionCount \<Rightarrow>
          Inr (slice0 (sortDescending score
                         (List.map_filter (trendingEntry st) articleInteractionCount)) limit))"

section \<open>Recommendation controller\<close>

text \<open>
  What a handler ends with: an error made by \<^verbatim>\<open>createError(message, status)\<close>, an error
  thrown by the service, which carries no status, or the JSON body sent with status 200.
\<close>

datatype failure = CreateError string nat | Thrown error

record pagination =
  pg_total :: nat
  pg_limit :: int
  pg_returned :: nat

record recommendationsBody =
  rb_success :: bool
  rb_message :: string
  rb_data :: "recommendation list"
  rb_user :: responseUser
  rb_metadata :: responseMetadata
  rb_pagination :: pagination

text \<open>\<^verbatim>\<open>objectIdSchema\<close>: the pattern \<^verbatim>\<open>/^[0-9a-fA-F]{24}$/\<close>.\<close>

definition objectIdSchema :: "string \<Rightarrow> string + objectId" where
  "objectIdSchema s =
     (if s = [] then Inl ''ID is required''
      else if length s = 24 \<and> list_all isHexDigit s then Inr s
      else Inl ''Invalid ID format'')"

text \<open>
  \<^verbatim>\<open>parseInt(req.query.limit as string) || 10\<close>: the argument is the value of
  \<^verbatim>\<open>parseInt\<close>, \<open>None\<close> for \<^verbatim>\<open>NaN\<close>; \<^verbatim>\<open>NaN\<close> and \<open>0\<close> are falsy.
\<close>

definition limitOrDefault :: "int option \<Rightarrow> int" where
  "limitOrDefault parsed = (case parsed of None \<Rightarrow> 10 | Some n \<Rightarrow> if n = 0 then 10 else n)"

text \<open>\<^verbatim>\<open>RecommendationController.getRecommendationsForUser\<close>.\<close>

definition controllerGetRecommendationsForUser ::
  "(string \<Rightarrow> string) \<Rightarrow> store \<Rightarrow> string \<Rightarrow> int option \<Rightarrow> failure + recommendationsBody" where
  "controllerGetRecommendationsForUser toLowerCase st userIdParam parsedLimit =
     (case objectIdSchema userIdParam of
        Inl msg \<Rightarrow> Inl (CreateError msg 400)
      | Inr uid \<Rightarrow>
          (let limit = limitOrDefault parsedLimit
           in if limit < 1 \<or> limit > 50 then Inl (CreateError ''Limit must be between 1 and 50'' 400)
              else (case getRecommendationsForUser toLowerCase st uid limit of
                      Inl e \<Rightarrow> Inl (Thrown e)
                    | Inr r \<Rightarrow>
                        Inr \<lparr>rb_success = True,
                             rb_message = ''Recommendations generated successfully'',
                             rb_data = recommendations r,
                             rb_user = user r,
                             rb_metadata = metadata r,
                             rb_pagination = \<lparr>pg_total = total r, pg_limit = limit,
                                              pg_returned = length (recommendations r)\<rparr>\<rparr>)))"


section \<open>The specification's scoring rule and example data\<close>

text \<open>
  The Interest Matcher as the specification words it: a term is matched when one of the
  three fields contains it, every listed term adds its field points, and the bonus counts
  the distinct matched terms.
\<close>

definition specInterestScore :: "(string \<Rightarrow> string) \<Rightarrow> string list \<Rightarrow> article \<Rightarrow> rat option" where
  "specInterestScore toLowerCase userInterests a =
     (let matched = filter (\<lambda>t. titleIncludes toLowerCase a (toLowerCase t)
                                 \<or> summaryIncludes toLowerCase a (toLowerCase t)
                                 \<or> contentIncludes toLowerCase a (toLowerCase t)) userInterests
      in if matched = [] then None
         else Some ((\<Sum>t\<leftarrow>matched. fieldPoints toLowerCase a (toLowerCase t))
                      + of_nat (card (set matched)) * (1 / 2)))"

text \<open>The article of the specification's scenario, for any identifier, content, author and date.\<close>

definition scenarioArticle :: "objectId \<Rightarrow> string \<Rightarrow> string \<Rightarrow> nat \<Rightarrow> article" where
  "scenarioArticle i c au t =
     \<lparr>article_id = i, title = ''Advanced TypeScript Programming Techniques'', content = c,
      author = au, summary = Some ''A deep dive into tech concepts...'', article_createdAt = t\<rparr>"

definition duplicateArticle :: article where
  "duplicateArticle =
     \<lparr>article_id = ''64b7f0c2a1d3e4f5a6b7c8d9'', title = ''Tech news of the week'',
      content = ''Markets were quiet.'', author = ''Ada'', summary = None, article_createdAt = 1\<rparr>"

definition boundaryArticle :: article where
  "boundaryArticle =
     \<lparr>article_id = ''64b7f0c2a1d3e4f5a6b7c8da'', title = ''Going deep'',
      content = ''Learning to dive safely.'', author = ''Ada'', summary = None, article_createdAt = 2\<rparr>"

text \<open>Example identifiers: 24 hexadecimal digits.\<close>

definition hexDigit :: "nat \<Rightarrow> char" where
  "hexDigit d = ''0123456789abcdef'' ! d"

definition oid :: "nat \<Rightarrow> objectId" where
  "oid n = replicate 21 (CHR ''0'')
             @ [hexDigit (n div 256 mod 16), hexDigit (n div 16 mod 16), hexDigit (n mod 16)]"

text \<open>
  A store in which one article has 5 views and 3 likes, from five other users, and one has
  no interaction.
\<close>

definition popularArticle :: article where
  "popularArticle =
     \<lparr>article_id = oid 16, title = ''Gardening in small spaces'', content = ''Herbs on a balcony.'',
      author = ''Bo'', summary = None, article_createdAt = 10\<rparr>"

definition quietArticle :: article where
  "quietArticle =
     \<lparr>article_id = oid 17, title = ''Quiet rivers'', content = ''A walk along the water.'',
      author = ''Cy'', summary = Some ''Notes from a walk'', article_createdAt = 11\<rparr>"

definition engagedStore :: store where
  "engagedStore =
     \<lparr>users = [\<lparr>user_id = oid 10, username = ''ada'', interests = [''tech'', ''programming'']\<rparr>],
      articles = [popularArticle, quietArticle],
      interactions =
        map (\<lambda>n. \<lparr>userId = oid (100 + n), articleId = oid 16, interactionType = View,
                    interaction_createdAt = 20 + n\<rparr>) [0..<5]
        @ map (\<lambda>n. \<lparr>userId = oid (100 + n), articleId = oid 16, interactionType = Like,
                      interaction_createdAt = 30 + n\<rparr>) [0..<3]\<rparr>"

text \<open>
  A store for the shortfall scenario: a user interested in \<open>tech\<close>, four articles that
  match, eight liked articles that do not, one of which the user has viewed.
\<close>

definition shortfallStore :: store where
  "shortfallStore =
     \<lparr>users = [\<lparr>user_id = oid 10, username = ''ada'', interests = [''tech'']\<rparr>],
      articles =
        map (\<lambda>n. \<lparr>article_id = oid (32 + n), title = ''Tech digest'', content = ''Weekly notes.'',
                    author = ''Bo'', summary = None, article_createdAt = 40 + n\<rparr>) [0..<4]
        @ map (\<lambda>n. \<lparr>article_id = oid (48 + n), title = ''Garden notes'', content = ''Seeds and soil.'',
                      author = ''Cy'', summary = None, article_createdAt = 20 + n\<rparr>) [0..<8],
      interactions =
        map (\<lambda>n. \<lparr>userId = oid 100, articleId = oid (48 + n), interactionType = Like,
                    interaction_createdAt = 60 + n\<rparr>) [0..<8]
        @ [\<lparr>userId = oid 10, articleId = oid 55, interactionType = View,
            interaction_createdAt = 90\<rparr>]\<rparr>"

text \<open>
  A store in which one user has 1001 interactions: 1000 likes, and before them a view of an
  article that matches the user's interest.
\<close>

definition cappedLike :: "nat \<Rightarrow> interaction" where
  "cappedLike n =
     \<lparr>userId = oid 10, articleId = oid (100 + n), interactionType = Like,
      interaction_createdAt = 2000 - n\<rparr>"

definition earlyView :: interaction where
  "earlyView =
     \<lparr>userId = oid 10, articleId = oid 20, interactionType = View, interaction_createdAt = 0\<rparr>"

definition seenArticle :: article where
  "seenArticle =
     \<lparr>article_id = oid 20, title = ''Tech digest'', content = ''Weekly notes.'',
      author = ''Bo'', summary = None, article_createdAt = 1\<rparr>"

definition cappedReaderStore :: store where
  "cappedReaderStore =
     \<lparr>users = [\<lparr>user_id = oid 10, username = ''ada'', interests = [''tech'']\<rparr>],
      articles = [seenArticle],
      interactions = map cappedLike [0..<1000] @ [earlyView]\<rparr>"

text \<open>
  A store in which a user has viewed the one article, and a store in which a user has viewed
  an article that has since been deleted.
\<close>

definition readerStore :: store where
  "readerStore =
     \<lparr>users = [\<lparr>user_id = oid 10, username = ''ada'', interests = [''tech'']\<rparr>],
      articles = [seenArticle],
      interactions = [earlyView]\<rparr>"

definition danglingStore :: store where
  "danglingStore =
     \<lparr>users = [\<lparr>user_id = oid 10, username = ''ada'', interests = [''tech'']\<rparr>],
      articles = [seenArticle],
      interactions = [\<lparr>userId = oid 10, articleId = oid 21, interactionType = View,
                       interaction_createdAt = 5\<rparr>]\<rparr>"

section \<open>Substring tests and the inner loop\<close>

lemma includes_str_sublist: "includes_str s t \<longleftrightarrow> sublist t s"
  by (induction s) (auto simp: sublist_Cons_right)

lemma includes_str_append_left: "includes_str s t \<Longrightarrow> includes_str (s @ r) t"
  unfolding includes_str_sublist by (metis sublist_append)

lemma includes_str_append_right: "includes_str r t \<Longrightarrow> includes_str (s @ r) t"
  unfolding includes_str_sublist by (metis sublist_append)

lemma includes_str_Cons: "includes_str r t \<Longrightarrow> includes_str (c # r) t"
  by simp

lemma toLowerCaseAscii_append:
  "toLowerCaseAscii (s @ r) = toLowerCaseAscii s @ toLowerCaseAscii r"
  by (simp add: toLowerCaseAscii_def)

lemma toLowerCaseAscii_join:
  "toLowerCaseAscii (join [x, y, z] '' '')
     = join [toLowerCaseAscii x, toLowerCaseAscii y, toLowerCaseAscii z] '' ''"
proof -
  have "toLowerChar (CHR '' '') = CHR '' ''"
    by code_simp
  then show ?thesis
    by (simp add: toLowerCaseAscii_def)
qed

lemma field_match_in_articleText:
  assumes "toLowerCase (join [title a, content a, summaryOrEmpty a] '' '')
             = join [toLowerCase (title a), toLowerCase (content a),
                     toLowerCase (summaryOrEmpty a)] '' ''"
    and "titleIncludes toLowerCase a t \<or> summaryIncludes toLowerCase a t
           \<or> contentIncludes toLowerCase a t"
  shows "includes_str (articleText toLowerCase a) t"
proof -
  have "includes_str (toLowerCase (title a) @ '' '' @ toLowerCase (content a)
                        @ '' '' @ toLowerCase (summaryOrEmpty a)) t"
    using assms(2)
    unfolding titleIncludes_def summaryIncludes_def contentIncludes_def summaryOrEmpty_def
    by (auto split: option.splits
          intro: includes_str_append_left includes_str_append_right includes_str_Cons)
  then show ?thesis
    unfolding articleText_def assms(1) by simp
qed

lemma interestLoop_eq:
  "interestLoop toLowerCase a ts (m, s) =
     (m @ filter (\<lambda>t. includes_str (articleText toLowerCase a) (toLowerCase t)) ts,
      s + (\<Sum>t\<leftarrow>filter (\<lambda>t. includes_str (articleText toLowerCase a) (toLowerCase t)) ts.
             fieldPoints toLowerCase a (toLowerCase t)))"
  by (induction ts arbitrary: m s) (auto simp: algebra_simps)

lemma scoreArticle_eq:
  "scoreArticle toLowerCase ts a =
     (let matched = filter (\<lambda>t. includes_str (articleText toLowerCase a) (toLowerCase t)) ts
      in if matched = [] then None
         else Some \<lparr>article = a,
                    score = (\<Sum>t\<leftarrow>matched. fieldPoints toLowerCase a (toLowerCase t))
                              + of_nat (length matched) * (1 / 2),
                    reason = ''Matches your interests: '' @ join matched '', '',
                    matchedInterests = Some matched\<rparr>)"
  by (simp add: scoreArticle_def interestLoop_eq Let_def)

lemma set_slice0: "set (slice0 xs n) \<subseteq> set xs"
  by (auto simp: slice0_def dest: in_set_takeD)

lemma set_sortDescending [simp]: "set (sortDescending k xs) = set xs"
  by (simp add: sortDescending_def)

lemma in_getInterestBasedRecommendations:
  assumes "r \<in> set (getInterestBasedRecommendations toLowerCase u arts limit)"
  shows "article r \<in> set arts \<and> scoreArticle toLowerCase (interests u) (article r) = Some r"
proof -
  from assms have "r \<in> set (List.map_filter (scoreArticle toLowerCase (interests u)) arts)"
    using set_slice0 by (fastforce simp: getInterestBasedRecommendations_def split: if_splits)
  then obtain a where a: "a \<in> set arts" "scoreArticle toLowerCase (interests u) a = Some r"
    by (auto simp: map_filter_def)
  then have "article r = a"
    by (auto simp: scoreArticle_eq Let_def split: if_splits)
  with a show ?thesis by simp
qed

section \<open>Interest Matcher: scoring\<close>

text \<open>
  C1 (amended). For every lowering function, every interest list and every article: the
  matched entries are the entries of the list whose lowering occurs in the lowered joined
  text; each matched entry adds 3 if the lowered title contains it, 2 if the lowered summary
  does and 1 if the lowered content does; the bonus is 0.5 times the number of matched
  entries of the list, an interest listed twice counting twice; no recommendation is produced
  when nothing matched; every recommendation returned is the one computed for its article.
  When lowering the joined text lowers each field in place, as \<^verbatim>\<open>toLowerCase\<close> does across
  the separating spaces, an interest found in the title, the summary or the content is
  among the matched entries.
\<close>

theorem interest_matcher_scoring:
  fixes toLowerCase :: "string \<Rightarrow> string" and userInterests :: "string list" and a :: article
  shows
    "(toLowerCase (join [title a, content a, summaryOrEmpty a] '' '')
        = join [toLowerCase (title a), toLowerCase (content a), toLowerCase (summaryOrEmpty a)] '' ''
      \<longrightarrow> (\<forall>t \<in> set userInterests.
             titleIncludes toLowerCase a (toLowerCase t)
               \<or> summaryIncludes toLowerCase a (toLowerCase t)
               \<or> contentIncludes toLowerCase a (toLowerCase t)
             \<longrightarrow> includes_str (articleText toLowerCase a) (toLowerCase t)))
     \<and> (let matched = filter (\<lambda>t. includes_str (articleText toLowerCase a) (toLowerCase t))
                          userInterests
        in (matched = [] \<longrightarrow> scoreArticle toLowerCase userInterests a = None)
         \<and> (matched \<noteq> [] \<longrightarrow>
              (\<exists>r. scoreArticle toLowerCase userInterests a = Some r
                 \<and> article r = a
                 \<and> matchedInterests r = Some matched
                 \<and> score r =
                     (\<Sum>t\<leftarrow>matched.
                        (if titleIncludes toLowerCase a (toLowerCase t) then 3 else 0)
                        + (if summaryIncludes toLowerCase a (toLowerCase t) then 2 else 0)
                        + (if contentIncludes toLowerCase a (toLowerCase t) then 1 else 0))
                     + of_nat (length matched) * (1 / 2))))
     \<and> (\<forall>r \<in> set (getInterestBasedRecommendations toLowerCase u arts limit).
          article r \<in> set arts \<and> scoreArticle toLowerCase (interests u) (article r) = Some r)"
proof (intro conjI)
  show "toLowerCase (join [title a, content a, summaryOrEmpty a] '' '')
        = join [toLowerCase (title a), toLowerCase (content a), toLowerCase (summaryOrEmpty a)] '' ''
      \<longrightarrow> (\<forall>t \<in> set userInterests.
             titleIncludes toLowerCase a (toLowerCase t)
               \<or> summaryIncludes toLowerCase a (toLowerCase t)
               \<or> contentIncludes toLowerCase a (toLowerCase t)
             \<longrightarrow> includes_str (articleText toLowerCase a) (toLowerCase t))"
    using field_match_in_articleText by blast
next
  show "let matched = filter (\<lambda>t. includes_str (articleText toLowerCase a) (toLowerCase t))
                          userInterests
        in (matched = [] \<longrightarrow> scoreArticle toLowerCase userInterests a = None)
         \<and> (matched \<noteq> [] \<longrightarrow>
              (\<exists>r. scoreArticle toLowerCase userInterests a = Some r
                 \<and> article r = a
                 \<and> matchedInterests r = Some matched
                 \<and> score r =
                     (\<Sum>t\<leftarrow>matched.
                        (if titleIncludes toLowerCase a (toLowerCase t) then 3 else 0)
                        + (if summaryIncludes toLowerCase a (toLowerCase t) then 2 else 0)
                        + (if contentIncludes toLowerCase a (toLowerCase t) then 1 else 0))
                     + of_nat (length matched) * (1 / 2)))"
    by (simp add: scoreArticle_eq Let_def fieldPoints_def)
next
  show "\<forall>r \<in> set (getInterestBasedRecommendations toLowerCase u arts limit).
          article r \<in> set arts \<and> scoreArticle toLowerCase (interests u) (article r) = Some r"
    using in_getInterestBasedRecommendations by blast
qed

text \<open>
  The theorem at the ASCII lowering, the interest list \<open>[tech, tech]\<close> and an article whose
  title has the term.
\<close>

theorem interest_matcher_scoring_witness:
  "toLowerCaseAscii (join [title duplicateArticle, content duplicateArticle,
                           summaryOrEmpty duplicateArticle] '' '')
     = join [toLowerCaseAscii (title duplicateArticle), toLowerCaseAscii (content duplicateArticle),
             toLowerCaseAscii (summaryOrEmpty duplicateArticle)] '' ''
   \<and> ''tech'' \<in> set [''tech'', ''tech'']
   \<and> titleIncludes toLowerCaseAscii duplicateArticle (toLowerCaseAscii ''tech'')
   \<and> includes_str (articleText toLowerCaseAscii duplicateArticle) (toLowerCaseAscii ''tech'')
   \<and> filter (\<lambda>t. includes_str (articleText toLowerCaseAscii duplicateArticle) (toLowerCaseAscii t))
        [''tech'', ''tech'']
       = [''tech'', ''tech'']
   \<and> (\<exists>r. scoreArticle toLowerCaseAscii [''tech'', ''tech''] duplicateArticle = Some r
          \<and> article r = duplicateArticle
          \<and> matchedInterests r = Some [''tech'', ''tech'']
          \<and> score r = 7)
   \<and> map article (getInterestBasedRecommendations toLowerCaseAscii
                     \<lparr>user_id = ''64b7f0c2a1d3e4f5a6b7c8e0'', username = ''ada'',
                      interests = [''tech'', ''tech'']\<rparr> [duplicateArticle] 6)
       = [duplicateArticle]"
proof -
  have j: "toLowerCaseAscii (join [title duplicateArticle, content duplicateArticle,
                           summaryOrEmpty duplicateArticle] '' '')
     = join [toLowerCaseAscii (title duplicateArticle), toLowerCaseAscii (content duplicateArticle),
             toLowerCaseAscii (summaryOrEmpty duplicateArticle)] '' ''"
    by (rule toLowerCaseAscii_join)
  have t: "titleIncludes toLowerCaseAscii duplicateArticle (toLowerCaseAscii ''tech'')"
    by code_simp
  have s: "\<not> summaryIncludes toLowerCaseAscii duplicateArticle (toLowerCaseAscii ''tech'')"
    by code_simp
  have c: "\<not> contentIncludes toLowerCaseAscii duplicateArticle (toLowerCaseAscii ''tech'')"
    by code_simp
  have m: "includes_str (articleText toLowerCaseAscii duplicateArticle) (toLowerCaseAscii ''tech'')"
    by code_simp
  have g: "map article (getInterestBasedRecommendations toLowerCaseAscii
                     \<lparr>user_id = ''64b7f0c2a1d3e4f5a6b7c8e0'', username = ''ada'',
                      interests = [''tech'', ''tech'']\<rparr> [duplicateArticle] 6)
             = [duplicateArticle]"
    by code_simp
  show ?thesis
    using interest_matcher_scoring [of toLowerCaseAscii duplicateArticle "[''tech'', ''tech'']"
        "\<lparr>user_id = ''64b7f0c2a1d3e4f5a6b7c8e0'', username = ''ada'', interests = [''tech'', ''tech'']\<rparr>"
        "[duplicateArticle]" 6] j
    by (simp add: m t s c g Let_def)
qed

text \<open>
  C1 (as stated) fails on an interest list with a repeated entry: the code scores
  \<open>3 + 3 + 2 * 0.5 = 7\<close>, the stated rule gives \<open>3 + 3 + 1 * 0.5\<close>.
\<close>

theorem interest_bonus_counterexample:
  "map_option score (scoreArticle toLowerCaseAscii [''tech'', ''tech''] duplicateArticle) = Some 7
   \<and> specInterestScore toLowerCaseAscii [''tech'', ''tech''] duplicateArticle = Some (13 / 2)"
  by code_simp

section \<open>Interest Matcher: the scenario of the specification\<close>

text \<open>
  C2 (as stated) fails: the title also contains \<open>tech\<close>, inside \<open>Techniques\<close>, so the
  score is not 6. The scenario's terms, title and summary are ASCII text, on which
  \<^verbatim>\<open>toLowerCase\<close> is the ASCII lowering.
\<close>

theorem scenario_score_counterexample:
  "map_option score
     (scoreArticle toLowerCaseAscii [''tech'', ''programming'']
        (scenarioArticle ''64b7f0c2a1d3e4f5a6b7c8db'' ''Generics and decorators in depth.'' ''Jane'' 5))
   \<noteq> Some 6"
  by code_simp

text \<open>
  C2 (amended). With interests \<open>[tech, programming]\<close>, the scenario's title and summary, and
  any content that contains neither term, the Interest Matcher produces a recommendation of
  score 9 (title 3 and summary 2 for \<open>tech\<close>, title 3 for \<open>programming\<close>, bonus 1) with
  matched terms \<open>[tech, programming]\<close>.
\<close>

theorem scenario_score_amended:
  assumes "\<not> includes_str (toLowerCaseAscii c) ''tech''"
    and "\<not> includes_str (toLowerCaseAscii c) ''programming''"
  shows "scoreArticle toLowerCaseAscii [''tech'', ''programming''] (scenarioArticle i c au t) =
           Some \<lparr>article = scenarioArticle i c au t, score = 9,
                  reason = ''Matches your interests: tech, programming'',
                  matchedInterests = Some [''tech'', ''programming'']\<rparr>"
proof -
  let ?a = "scenarioArticle i c au t"
  have low: "toLowerCaseAscii ''tech'' = ''tech''"
    "toLowerCaseAscii ''programming'' = ''programming''"
    by code_simp+
  have tt: "titleIncludes toLowerCaseAscii ?a ''tech''"
    and tp: "titleIncludes toLowerCaseAscii ?a ''programming''"
    unfolding titleIncludes_def scenarioArticle_def article.simps by code_simp+
  have st: "summaryIncludes toLowerCaseAscii ?a ''tech''"
    and sp: "\<not> summaryIncludes toLowerCaseAscii ?a ''programming''"
    unfolding summaryIncludes_def scenarioArticle_def article.simps option.case by code_simp+
  have ct: "\<not> contentIncludes toLowerCaseAscii ?a ''tech''"
    and cp: "\<not> contentIncludes toLowerCaseAscii ?a ''programming''"
    using assms by (simp_all add: contentIncludes_def scenarioArticle_def)
  have "includes_str (articleText toLowerCaseAscii ?a) ''tech''"
    "includes_str (articleText toLowerCaseAscii ?a) ''programming''"
    using tt tp by (simp_all add: field_match_in_articleText [OF toLowerCaseAscii_join])
  then show ?thesis
    by (simp add: scoreArticle_eq low fieldPoints_def tt tp st sp ct cp)
qed

theorem scenario_score_amended_witness:
  "\<not> includes_str (toLowerCaseAscii ''Generics and decorators in depth.'') ''tech''
   \<and> \<not> includes_str (toLowerCaseAscii ''Generics and decorators in depth.'') ''programming''
   \<and> scoreArticle toLowerCaseAscii [''tech'', ''programming'']
        (scenarioArticle ''64b7f0c2a1d3e4f5a6b7c8db'' ''Generics and decorators in depth.'' ''Jane'' 5) =
       Some \<lparr>article = scenarioArticle ''64b7f0c2a1d3e4f5a6b7c8db'' ''Generics and decorators in depth.'' ''Jane'' 5,
              score = 9,
              reason = ''Matches your interests: tech, programming'',
              matchedInterests = Some [''tech'', ''programming'']\<rparr>"
proof -
  have h1: "\<not> includes_str (toLowerCaseAscii ''Generics and decorators in depth.'') ''tech''"
    by code_simp
  have h2: "\<not> includes_str (toLowerCaseAscii ''Generics and decorators in depth.'') ''programming''"
    by code_simp
  show ?thesis
    using h1 h2 scenario_score_amended [OF h1 h2, of "''64b7f0c2a1d3e4f5a6b7c8db''" "''Jane''" 5]
    by simp
qed

section \<open>Interest Matcher: matches across the joined text\<close>

text \<open>
  C10. The first test runs on the joined text, so an interest that spans the boundary
  between two fields is matched although no field contains it; when every listed interest is
  of this kind the article is recommended with no field points, its score being 0.5 per
  interest.
\<close>

theorem boundary_match_scores_half:
  assumes "userInterests \<noteq> []"
    and "\<forall>t \<in> set userInterests.
           includes_str (articleText toLowerCase a) (toLowerCase t)
           \<and> \<not> titleIncludes toLowerCase a (toLowerCase t)
           \<and> \<not> summaryIncludes toLowerCase a (toLowerCase t)
           \<and> \<not> contentIncludes toLowerCase a (toLowerCase t)"
  shows "scoreArticle toLowerCase userInterests a =
           Some \<lparr>article = a, score = of_nat (length userInterests) * (1 / 2),
                  reason = ''Matches your interests: '' @ join userInterests '', '',
                  matchedInterests = Some userInterests\<rparr>"
proof -
  have f: "filter (\<lambda>t. includes_str (articleText toLowerCase a) (toLowerCase t)) userInterests
             = userInterests"
    using assms(2) by (simp add: filter_id_conv)
  have "(\<Sum>t\<leftarrow>userInterests. fieldPoints toLowerCase a (toLowerCase t)) = (\<Sum>t\<leftarrow>userInterests. 0)"
    using assms(2) by (intro arg_cong[where f = sum_list] map_cong) (auto simp: fieldPoints_def)
  then show ?thesis
    using assms(1) by (simp add: scoreArticle_eq f)
qed

text \<open>
  Such an input exists: the title ends in \<open>deep\<close>, the content starts with \<open>Learning\<close>, and
  the joined text is \<^verbatim>\<open>going deep learning to dive safely. \<close>.
\<close>

theorem boundary_match_scores_half_witness:
  "[''deep learning''] \<noteq> []
   \<and> articleText toLowerCaseAscii boundaryArticle = ''going deep learning to dive safely. ''
   \<and> includes_str (articleText toLowerCaseAscii boundaryArticle) (toLowerCaseAscii ''deep learning'')
   \<and> \<not> titleIncludes toLowerCaseAscii boundaryArticle (toLowerCaseAscii ''deep learning'')
   \<and> \<not> summaryIncludes toLowerCaseAscii boundaryArticle (toLowerCaseAscii ''deep learning'')
   \<and> \<not> contentIncludes toLowerCaseAscii boundaryArticle (toLowerCaseAscii ''deep learning'')
   \<and> scoreArticle toLowerCaseAscii [''deep learning''] boundaryArticle =
           Some \<lparr>article = boundaryArticle, score = 1 / 2,
                  reason = ''Matches your interests: deep learning'',
                  matchedInterests = Some [''deep learning'']\<rparr>"
proof -
  have h: "\<forall>t \<in> set [''deep learning''].
           includes_str (articleText toLowerCaseAscii boundaryArticle) (toLowerCaseAscii t)
           \<and> \<not> titleIncludes toLowerCaseAscii boundaryArticle (toLowerCaseAscii t)
           \<and> \<not> summaryIncludes toLowerCaseAscii boundaryArticle (toLowerCaseAscii t)
           \<and> \<not> contentIncludes toLowerCaseAscii boundaryArticle (toLowerCaseAscii t)"
    by code_simp
  have j: "articleText toLowerCaseAscii boundaryArticle = ''going deep learning to dive safely. ''"
    by code_simp
  show ?thesis
    using h j boundary_match_scores_half [OF _ h] by simp
qed

section \<open>Lists: slicing and sorting\<close>

lemma length_slice0: "0 \<le> n \<Longrightarrow> length (slice0 xs n) = min (nat n) (length xs)"
  by (simp add: slice0_def min_def)

lemma length_sortDescending [simp]: "length (sortDescending k xs) = length xs"
  by (simp add: sortDescending_def)

lemma slice0_all: "int (length xs) \<le> n \<Longrightarrow> slice0 xs n = xs"
  by (simp add: slice0_def)

section \<open>Popularity Ranker\<close>

lemma articleStats_filter:
  "filter (\<lambda>item. popularityScore item > 0) (articleStats st arts) =
     articleStats st
       (filter (\<lambda>a. likes (getInteractionStats st (article_id a)) * 2
                       + views (getInteractionStats st (article_id a)) > 0) arts)"
  by (simp add: articleStats_def filter_map o_def Let_def)

lemma in_articleStats:
  "item \<in> set (articleStats st arts) \<Longrightarrow>
     stat_article item \<in> set arts
     \<and> stat_stats item = getInteractionStats st (article_id (stat_article item))
     \<and> popularityScore item = likes (stat_stats item) * 2 + views (stat_stats item)"
  by (auto simp: articleStats_def Let_def)

lemma in_getPopularityBasedRecommendations:
  assumes "r \<in> set (getPopularityBasedRecommendations st arts limit)"
  shows "article r \<in> set arts
         \<and> 0 < likes (getInteractionStats st (article_id (article r))) * 2
                 + views (getInteractionStats st (article_id (article r)))
         \<and> score r = of_nat (likes (getInteractionStats st (article_id (article r))) * 2
                              + views (getInteractionStats st (article_id (article r)))) * (1 / 10)
         \<and> reason r = popularityReason (getInteractionStats st (article_id (article r)))
         \<and> matchedInterests r = None"
proof -
  from assms obtain item where
    item: "item \<in> set (filter (\<lambda>item. popularityScore item > 0) (articleStats st arts))"
    and r: "r = \<lparr>article = stat_article item,
                 score = of_nat (popularityScore item) * (1 / 10),
                 reason = popularityReason (stat_stats item),
                 matchedInterests = None\<rparr>"
    using set_slice0 by (fastforce simp: getPopularityBasedRecommendations_def Let_def)
  from item have "item \<in> set (articleStats st arts)" and pos: "popularityScore item > 0"
    by simp_all
  from in_articleStats [OF this(1)] pos r show ?thesis
    by simp
qed

lemma map_article_getPopularityBasedRecommendations:
  "map article (getPopularityBasedRecommendations st arts limit) =
     map stat_article
       (slice0 (sortDescending (\<lambda>item. of_nat (popularityScore item))
                  (filter (\<lambda>item. popularityScore item > 0) (articleStats st arts))) limit)"
  by (simp add: getPopularityBasedRecommendations_def Let_def o_def)

lemma all_popular_returned:
  assumes "int (length arts) \<le> limit" and "a \<in> set arts"
    and "0 < likes (getInteractionStats st (article_id a)) * 2
             + views (getInteractionStats st (article_id a))"
  shows "a \<in> article ` set (getPopularityBasedRecommendations st arts limit)"
proof -
  let ?xs = "filter (\<lambda>item. popularityScore item > 0) (articleStats st arts)"
  have "length ?xs \<le> length (articleStats st arts)"
    by (rule length_filter_le)
  then have "length ?xs \<le> length arts"
    by (simp add: articleStats_def)
  with assms(1) have "slice0 (sortDescending (\<lambda>item. of_nat (popularityScore item)) ?xs) limit
                        = sortDescending (\<lambda>item. of_nat (popularityScore item)) ?xs"
    by (intro slice0_all) simp
  then have "set (map article (getPopularityBasedRecommendations st arts limit))
               = stat_article ` set ?xs"
    by (simp add: map_article_getPopularityBasedRecommendations)
  moreover have "a \<in> stat_article ` set ?xs"
    using assms(2,3) by (force simp: articleStats_def Let_def)
  ultimately show ?thesis by simp
qed

text \<open>
  C6. Every recommendation the Popularity Ranker returns is for one of the candidates, whose
  popularity score \<open>likes * 2 + views * 1\<close> is not 0, and carries that score times 0.1,
  which is strictly less than \<open>likes * 2 + views\<close>; a candidate of popularity score 0 is
  never returned, and when the limit covers all candidates every other candidate is.
\<close>

theorem popularity_ranker_scores:
  "(\<forall>r \<in> set (getPopularityBasedRecommendations st arts limit).
      article r \<in> set arts
      \<and> likes (getInteractionStats st (article_id (article r))) * 2
          + views (getInteractionStats st (article_id (article r))) * 1 \<noteq> 0
      \<and> score r = of_nat (likes (getInteractionStats st (article_id (article r))) * 2
                           + views (getInteractionStats st (article_id (article r))) * 1) * (1 / 10)
      \<and> score r < of_nat (likes (getInteractionStats st (article_id (article r))) * 2
                           + views (getInteractionStats st (article_id (article r)))))
   \<and> (\<forall>a \<in> set arts.
        likes (getInteractionStats st (article_id a)) * 2
          + views (getInteractionStats st (article_id a)) * 1 = 0
        \<longrightarrow> a \<notin> article ` set (getPopularityBasedRecommendations st arts limit))
   \<and> (\<forall>a \<in> set arts.
        int (length arts) \<le> limit
        \<and> likes (getInteractionStats st (article_id a)) * 2
            + views (getInteractionStats st (article_id a)) * 1 \<noteq> 0
        \<longrightarrow> a \<in> article ` set (getPopularityBasedRecommendations st arts limit))"
proof (intro conjI ballI impI)
  fix r assume r: "r \<in> set (getPopularityBasedRecommendations st arts limit)"
  let ?p = "likes (getInteractionStats st (article_id (article r))) * 2
              + views (getInteractionStats st (article_id (article r)))"
  note f = in_getPopularityBasedRecommendations [OF r]
  from f show "article r \<in> set arts" by simp
  from f show "likes (getInteractionStats st (article_id (article r))) * 2
          + views (getInteractionStats st (article_id (article r))) * 1 \<noteq> 0"
    by simp
  from f show "score r = of_nat (likes (getInteractionStats st (article_id (article r))) * 2
                           + views (getInteractionStats st (article_id (article r))) * 1) * (1 / 10)"
    by simp
  from f have "0 < ?p" by simp
  then have "0 < (of_nat ?p :: rat)" by (simp only: of_nat_0_less_iff)
  then have "(of_nat ?p :: rat) * (1 / 10) < of_nat ?p" by simp
  with f show "score r < of_nat ?p" by (simp only:)
next
  fix a
  assume "a \<in> set arts"
    and z: "likes (getInteractionStats st (article_id a)) * 2
              + views (getInteractionStats st (article_id a)) * 1 = 0"
  show "a \<notin> article ` set (getPopularityBasedRecommendations st arts limit)"
  proof
    assume "a \<in> article ` set (getPopularityBasedRecommendations st arts limit)"
    then obtain r where "r \<in> set (getPopularityBasedRecommendations st arts limit)" "article r = a"
      by auto
    with in_getPopularityBasedRecommendations [OF this(1)] z show False by simp
  qed
next
  fix a
  assume "a \<in> set arts"
    and "int (length arts) \<le> limit
          \<and> likes (getInteractionStats st (article_id a)) * 2
              + views (getInteractionStats st (article_id a)) * 1 \<noteq> 0"
  then show "a \<in> article ` set (getPopularityBasedRecommendations st arts limit)"
    using all_popular_returned by simp
qed

text \<open>The article with 3 likes and 5 views gets \<open>(3 * 2 + 5) * 0.1 = 1.1\<close>.\<close>

theorem popularity_ranker_scores_witness:
  "getPopularityBasedRecommendations engagedStore [popularArticle, quietArticle] 5 =
     [\<lparr>article = popularArticle, score = 11 / 10,
       reason = ''Popular article (3 likes, 5 views)'', matchedInterests = None\<rparr>]
   \<and> likes (getInteractionStats engagedStore (article_id popularArticle)) = 3
   \<and> views (getInteractionStats engagedStore (article_id popularArticle)) = 5
   \<and> likes (getInteractionStats engagedStore (article_id quietArticle)) * 2
       + views (getInteractionStats engagedStore (article_id quietArticle)) = 0
   \<and> (11 / 10 :: rat) < of_nat (3 * 2 + 5)
   \<and> quietArticle \<notin> article ` set (getPopularityBasedRecommendations engagedStore
                                       [popularArticle, quietArticle] 5)
   \<and> popularArticle \<in> article ` set (getPopularityBasedRecommendations engagedStore
                                       [popularArticle, quietArticle] 5)"
proof -
  have e: "getPopularityBasedRecommendations engagedStore [popularArticle, quietArticle] 5 =
     [\<lparr>article = popularArticle, score = 11 / 10,
       reason = ''Popular article (3 likes, 5 views)'', matchedInterests = None\<rparr>]"
    by code_simp
  have l: "likes (getInteractionStats engagedStore (article_id popularArticle)) = 3"
    by code_simp
  have v: "views (getInteractionStats engagedStore (article_id popularArticle)) = 5"
    by code_simp
  have q: "likes (getInteractionStats engagedStore (article_id quietArticle)) * 2
       + views (getInteractionStats engagedStore (article_id quietArticle)) = 0"
    by code_simp
  have ne: "quietArticle \<noteq> popularArticle"
    by code_simp
  show ?thesis
    using popularity_ranker_scores [of engagedStore "[popularArticle, quietArticle]" 5]
    by (simp add: e l v q ne)
qed

section \<open>The steps of a recommendation request\<close>

lemma getRecommendationsForUser_Some:
  assumes "getUserById st uid = Inr (Some u)"
    and "viewedArticleIds st uid = Inr viewed"
  shows "getRecommendationsForUser toLowerCase st uid limit =
     (let interestRecommendations =
            getInterestBasedRecommendations toLowerCase u (unviewedArticles st viewed)
              (interestBasedLimit limit);
          popularityBasedLimit = limit - int (length interestRecommendations);
          recs = interestRecommendations
                   @ popularityPass st viewed interestRecommendations popularityBasedLimit;
          sortedRecommendations = slice0 (sortDescending score recs) limit
      in Inr \<lparr>recommendations = sortedRecommendations,
              total = length sortedRecommendations,
              user = \<lparr>ru_id = user_id u, ru_username = username u, ru_interests = interests u\<rparr>,
              metadata = \<lparr>interestBasedCount = length interestRecommendations,
                          popularityBasedCount = length recs - length interestRecommendations,
                          algorithm = ''rule-based-v1''\<rparr>\<rparr>)"
  using assms by (simp add: getRecommendationsForUser_def generateRecommendations_def Let_def)

lemma getRecommendationsForUser_Inr:
  assumes "getUserById st uid = Inr (Some u)"
    and "viewedArticleIds st uid = Inr viewed"
  shows "\<exists>r. getRecommendationsForUser toLowerCase st uid limit = Inr r"
  by (simp add: getRecommendationsForUser_Some [OF assms] Let_def)


text \<open>The exclusion set is computed unless a viewed interaction has lost its article.\<close>

lemma mapThrowing_articleIdToString:
  "mapThrowing (\<lambda>i. articleIdToString (p_articleId i)) xs =
     (if \<forall>i \<in> set xs. p_articleId i \<noteq> None then Inr (map (\<lambda>i. ''[object Object]'') xs)
      else Inl (Error nullToStringMessage))"
  by (induction xs) (auto simp: articleIdToString_def split: option.splits)

lemma viewedArticleIds_cases:
  "viewedArticleIds st uid = Inl (Error nullToStringMessage)
   \<or> (\<exists>viewed. viewedArticleIds st uid = Inr viewed \<and> viewed \<subseteq> {''[object Object]''})"
  by (auto simp: viewedArticleIds_def mapThrowing_articleIdToString)


lemma objectIdSchema_casts: "objectIdSchema p = Inr uid \<Longrightarrow> uid = p \<and> castsToObjectId uid"
  by (auto simp: objectIdSchema_def castsToObjectId_def split: if_splits)

section \<open>Unknown users\<close>



section \<open>The limit of a request\<close>

lemma engagedStore_user:
  "getUserById engagedStore (oid 10) =
     Inr (Some \<lparr>user_id = oid 10, username = ''ada'', interests = [''tech'', ''programming'']\<rparr>)"
  by code_simp

lemma engagedStore_viewed: "viewedArticleIds engagedStore (oid 10) = Inr {}"
  by code_simp

text \<open>
  C5 (as stated) fails: a limit outside \<open>[1, 50]\<close> is not replaced by the nearest value in
  range. The limits 51 and -3 are rejected, while 50 and 1 are served.
\<close>

theorem limit_clamp_counterexample:
  "controllerGetRecommendationsForUser toLowerCaseAscii engagedStore (oid 10) (Some 51) =
     Inl (CreateError ''Limit must be between 1 and 50'' 400)
   \<and> controllerGetRecommendationsForUser toLowerCaseAscii engagedStore (oid 10) (Some 51)
       \<noteq> controllerGetRecommendationsForUser toLowerCaseAscii engagedStore (oid 10)
            (Some (max 1 (min 50 51)))
   \<and> controllerGetRecommendationsForUser toLowerCaseAscii engagedStore (oid 10) (Some (- 3)) =
     Inl (CreateError ''Limit must be between 1 and 50'' 400)
   \<and> controllerGetRecommendationsForUser toLowerCaseAscii engagedStore (oid 10) (Some (- 3))
       \<noteq> controllerGetRecommendationsForUser toLowerCaseAscii engagedStore (oid 10)
            (Some (max 1 (min 50 (- 3))))"
  by code_simp

text \<open>
  C5 (amended). For a well-formed user identifier: a request whose limit is below 1 or above
  50 is rejected with status 400 and the message \<open>Limit must be between 1 and 50\<close>, and the
  service is not called; a limit within \<open>[1, 50]\<close> is passed to the service unchanged; a
  missing, unparsable or zero limit counts as 10.
\<close>

theorem limit_outside_range_rejected:
  assumes "objectIdSchema userIdParam = Inr uid"
  shows "(limitOrDefault parsed < 1 \<or> 50 < limitOrDefault parsed \<longrightarrow>
            controllerGetRecommendationsForUser toLowerCase st userIdParam parsed =
              Inl (CreateError ''Limit must be between 1 and 50'' 400))
         \<and> (1 \<le> limitOrDefault parsed \<and> limitOrDefault parsed \<le> 50 \<longrightarrow>
              (case getRecommendationsForUser toLowerCase st uid (limitOrDefault parsed) of
                 Inl e \<Rightarrow>
                   controllerGetRecommendationsForUser toLowerCase st userIdParam parsed
                     = Inl (Thrown e)
               | Inr r \<Rightarrow>
                   (\<exists>body. controllerGetRecommendationsForUser toLowerCase st userIdParam parsed
                             = Inr body
                      \<and> rb_data body = recommendations r
                      \<and> pg_limit (rb_pagination body) = limitOrDefault parsed)))
         \<and> limitOrDefault None = 10
         \<and> limitOrDefault (Some 0) = 10
         \<and> (\<forall>n. n \<noteq> 0 \<longrightarrow> limitOrDefault (Some n) = n)"
  using assms
  by (auto simp: controllerGetRecommendationsForUser_def limitOrDefault_def Let_def
           split: sum.splits)

theorem limit_outside_range_rejected_witness:
  "objectIdSchema (oid 10) = Inr (oid 10)
   \<and> limitOrDefault (Some 51) = 51
   \<and> controllerGetRecommendationsForUser toLowerCaseAscii engagedStore (oid 10) (Some 51) =
       Inl (CreateError ''Limit must be between 1 and 50'' 400)
   \<and> limitOrDefault (Some 50) = 50
   \<and> (\<exists>body. controllerGetRecommendationsForUser toLowerCaseAscii engagedStore (oid 10) (Some 50)
               = Inr body
         \<and> pg_limit (rb_pagination body) = 50)"
proof -
  have h: "objectIdSchema (oid 10) = Inr (oid 10)"
    by code_simp
  have l: "limitOrDefault (Some 51) = 51" "limitOrDefault (Some 50) = 50"
    by (simp_all add: limitOrDefault_def)
  obtain r where r: "getRecommendationsForUser toLowerCaseAscii engagedStore (oid 10) 50 = Inr r"
    using getRecommendationsForUser_Inr [OF engagedStore_user engagedStore_viewed] by blast
  show ?thesis
    using limit_outside_range_rejected [OF h, of "Some 51" toLowerCaseAscii engagedStore]
      limit_outside_range_rejected [OF h, of "Some 50" toLowerCaseAscii engagedStore]
    by (auto simp: h l r)
qed

section \<open>The limit of the popularity pass\<close>

lemma length_getPopularityBasedRecommendations:
  assumes "0 \<le> limit"
  shows "length (getPopularityBasedRecommendations st arts limit) =
           min (nat limit)
             (length (filter (\<lambda>a. 0 < likes (getInteractionStats st (article_id a)) * 2
                                     + views (getInteractionStats st (article_id a))) arts))"
  using assms
  by (simp add: getPopularityBasedRecommendations_def Let_def length_slice0 articleStats_filter)
     (simp add: articleStats_def)

lemma unviewed_not_viewed:
  "a \<in> set (unviewedArticles st viewed) \<Longrightarrow> article_id a \<notin> viewed"
  by (simp add: unviewedArticles_def)

lemma popularity_pool:
  "filter (\<lambda>a. article_id a \<notin> viewed \<union> ids) (unviewedArticles st viewed) =
     filter (\<lambda>a. article_id a \<notin> ids) (unviewedArticles st viewed)"
  by (rule filter_cong) (auto dest: unviewed_not_viewed)

lemma length_popularityPass:
  "length (popularityPass st viewed interestRecommendations popularityBasedLimit) =
     (if popularityBasedLimit > 0
      then min (nat popularityBasedLimit)
             (length (filter (\<lambda>a. article_id a \<notin> set (recommendationIds interestRecommendations)
                                   \<and> 0 < likes (getInteractionStats st (article_id a)) * 2
                                           + views (getInteractionStats st (article_id a)))
                        (unviewedArticles st viewed)))
      else 0)"
proof (cases "popularityBasedLimit > 0")
  case True
  let ?ids = "set (recommendationIds interestRecommendations)"
  have "popularityPass st viewed interestRecommendations popularityBasedLimit =
          getPopularityBasedRecommendations st
            (filter (\<lambda>a. article_id a \<notin> ?ids) (unviewedArticles st viewed)) popularityBasedLimit"
    using True by (simp only: popularityPass_def Let_def if_True popularity_pool)
  then show ?thesis
    using True by (simp add: length_getPopularityBasedRecommendations)
next
  case False
  then show ?thesis by (simp add: popularityPass_def)
qed

text \<open>
  C7. For a user that resolves and whose exclusion set \<open>viewed\<close> is computed: the interest
  pass runs on the candidates outside \<open>viewed\<close> under the cap \<open>ceil(limit * 0.6)\<close>, and the
  response reports the number of results it returned; the limit handed to the popularity
  pass is \<open>limit\<close> minus that number, not \<open>limit\<close> minus the cap; the pass runs only when
  this difference is positive, and then returns exactly that many results, or all the
  eligible candidates (outside \<open>viewed\<close>, not chosen by the interest pass, of nonzero
  popularity score) when there are fewer.
\<close>

theorem popularity_limit_from_actual_count:
  assumes "getUserById st uid = Inr (Some u)"
    and "viewedArticleIds st uid = Inr viewed"
  shows "\<exists>response.
           getRecommendationsForUser toLowerCase st uid limit = Inr response
           \<and> (let interestRecommendations =
                    getInterestBasedRecommendations toLowerCase u (unviewedArticles st viewed)
                      (interestBasedLimit limit);
                  popularityBasedLimit = limit - int (length interestRecommendations)
              in recommendations response =
                   slice0 (sortDescending score
                     (interestRecommendations
                        @ popularityPass st viewed interestRecommendations popularityBasedLimit))
                     limit
                 \<and> interestBasedCount (metadata response) = length interestRecommendations
                 \<and> popularityBasedCount (metadata response) =
                     length (popularityPass st viewed interestRecommendations popularityBasedLimit)
                 \<and> length (popularityPass st viewed interestRecommendations popularityBasedLimit) =
                     (if popularityBasedLimit > 0
                      then min (nat popularityBasedLimit)
                             (length (filter (\<lambda>a. article_id a
                                                     \<notin> set (recommendationIds interestRecommendations)
                                                   \<and> 0 < likes (getInteractionStats st (article_id a)) * 2
                                                           + views (getInteractionStats st (article_id a)))
                                        (unviewedArticles st viewed)))
                      else 0))"
  by (simp add: getRecommendationsForUser_Some [OF assms] Let_def length_popularityPass)

text \<open>
  The scenario of the specification: limit 10, four interest matches (the cap is 6), eight
  popular articles; six popularity results are returned. At limit 12 the cap is 8, and all
  eight popular articles are returned.
\<close>

theorem popularity_limit_from_actual_count_witness:
  "getUserById shortfallStore (oid 10) =
     Inr (Some \<lparr>user_id = oid 10, username = ''ada'', interests = [''tech'']\<rparr>)
   \<and> viewedArticleIds shortfallStore (oid 10) = Inr {''[object Object]''}
   \<and> interestBasedLimit 10 = 6
   \<and> (\<exists>response. getRecommendationsForUser toLowerCaseAscii shortfallStore (oid 10) 10 = Inr response
         \<and> interestBasedCount (metadata response) = 4
         \<and> popularityBasedCount (metadata response) = 6)
   \<and> interestBasedLimit 12 = 8
   \<and> (\<exists>response. getRecommendationsForUser toLowerCaseAscii shortfallStore (oid 10) 12 = Inr response
         \<and> interestBasedCount (metadata response) = 4
         \<and> popularityBasedCount (metadata response) = 8)"
proof -
  let ?u = "\<lparr>user_id = oid 10, username = ''ada'', interests = [''tech'']\<rparr>"
  let ?pool = "unviewedArticles shortfallStore {''[object Object]''}"
  let ?interest = "getInterestBasedRecommendations toLowerCaseAscii ?u ?pool (interestBasedLimit 10)"
  let ?interest' = "getInterestBasedRecommendations toLowerCaseAscii ?u ?pool (interestBasedLimit 12)"
  have u: "getUserById shortfallStore (oid 10) = Inr (Some ?u)"
    by code_simp
  have v: "viewedArticleIds shortfallStore (oid 10) = Inr {''[object Object]''}"
    by code_simp
  have c: "interestBasedLimit 10 = 6" "interestBasedLimit 12 = 8"
    by code_simp+
  have n: "length ?interest = 4"
    by code_simp
  have n': "length ?interest' = 4"
    by code_simp
  have e: "length (filter (\<lambda>a. article_id a \<notin> set (recommendationIds ?interest)
                                \<and> 0 < likes (getInteractionStats shortfallStore (article_id a)) * 2
                                        + views (getInteractionStats shortfallStore (article_id a)))
                     ?pool) = 8"
    by code_simp
  have e': "length (filter (\<lambda>a. article_id a \<notin> set (recommendationIds ?interest')
                                \<and> 0 < likes (getInteractionStats shortfallStore (article_id a)) * 2
                                        + views (getInteractionStats shortfallStore (article_id a)))
                     ?pool) = 8"
    by code_simp
  note th = popularity_limit_from_actual_count [OF u v, of toLowerCaseAscii 10, unfolded Let_def n e]
  note th' = popularity_limit_from_actual_count [OF u v, of toLowerCaseAscii 12, unfolded Let_def n' e']
  show ?thesis
    using th th' by (auto simp: u v c)
qed

section \<open>Trending Aggregator\<close>

lemma map_fst_map_set:
  "map fst (map_set k v m) = (if k \<in> set (map fst m) then map fst m else map fst m @ [k])"
proof (induction m)
  case Nil
  then show ?case by simp
next
  case (Cons e m)
  obtain k' v' where e: "e = (k', v')"
    by (cases e)
  show ?case
  proof (cases "k' = k")
    case True
    then show ?thesis by (simp add: e)
  next
    case False
    with Cons show ?thesis
      by (simp add: e)
  qed
qed

lemma fst_map_set: "fst ` set (map_set k v m) = insert k (fst ` set m)"
proof -
  have "set (map fst (map_set k v m)) = insert k (set (map fst m))"
    unfolding map_fst_map_set by auto
  then show ?thesis
    by simp
qed

lemma countInteractions_null:
  assumes "\<exists>i \<in> set xs. p_articleId i = None"
  shows "countInteractions m xs = Inl (Error nullToStringMessage)"
  using assms
proof (induction xs arbitrary: m)
  case Nil
  then show ?case by simp
next
  case (Cons i xs)
  show ?case
  proof (cases "p_articleId i")
    case None
    then show ?thesis
      by (simp add: articleIdToString_def)
  next
    case (Some a)
    with Cons.prems have "\<exists>i \<in> set xs. p_articleId i = None"
      by auto
    from Cons.IH [OF this] Some show ?thesis
      by (simp add: articleIdToString_def Let_def)
  qed
qed

lemma countInteractions_keys:
  assumes "\<forall>i \<in> set xs. p_articleId i \<noteq> None"
  shows "\<exists>m'. countInteractions m xs = Inr m'
           \<and> fst ` set m' \<subseteq> insert ''[object Object]'' (fst ` set m)"
  using assms
proof (induction xs arbitrary: m)
  case Nil
  then show ?case by auto
next
  case (Cons i xs)
  from Cons.prems obtain a where a: "p_articleId i = Some a"
    by auto
  from Cons.prems have rest: "\<forall>i \<in> set xs. p_articleId i \<noteq> None"
    by simp
  let ?current = "case map_of m ''[object Object]'' of
                    None \<Rightarrow> \<lparr>views = 0, likes = 0\<rparr> | Some c \<Rightarrow> c"
  let ?current' = "case p_interactionType i of
                     View \<Rightarrow> ?current\<lparr>views := views ?current + 1\<rparr>
                   | Like \<Rightarrow> ?current\<lparr>likes := likes ?current + 1\<rparr>"
  have step: "countInteractions m (i # xs) =
                countInteractions (map_set ''[object Object]'' ?current' m) xs"
    by (simp add: a articleIdToString_def Let_def)
  from Cons.IH [OF rest, of "map_set ''[object Object]'' ?current' m"]
  obtain m' where "countInteractions (map_set ''[object Object]'' ?current' m) xs = Inr m'"
    and "fst ` set m' \<subseteq> insert ''[object Object]''
                          (fst ` set (map_set ''[object Object]'' ?current' m))"
    by blast
  then show ?case
    unfolding step fst_map_set by auto
qed

text \<open>The key \<^verbatim>\<open>[object Object]\<close> has 15 characters: the lookup throws, and the entry is skipped.\<close>

lemma trendingEntry_object: "trendingEntry st (''[object Object]'', c) = None"
  by (simp add: trendingEntry_def getArticleById_def castsToObjectId_def)

lemma no_trendingEntry:
  assumes "fst ` set m \<subseteq> {''[object Object]''}"
  shows "List.map_filter (trendingEntry st) m = []"
  using assms
proof (induction m)
  case Nil
  then show ?case by (simp add: map_filter_simps)
next
  case (Cons e m)
  then have "e = (''[object Object]'', snd e)"
    by (cases e) auto
  then have "trendingEntry st e = None"
    using trendingEntry_object [of st "snd e"] by simp
  with Cons show ?case
    by (simp add: map_filter_simps)
qed

text \<open>What an entry would be for a key that resolves.\<close>

lemma trendingEntry_resolved:
  assumes "getArticleById st k = Inr (Some a)"
  shows "trendingEntry st (k, c) =
           Some \<lparr>article = a, score = of_nat (likes c * 3 + views c),
                 reason = ''Trending now ('' @ showNat (likes c) @ '' likes, ''
                            @ showNat (views c) @ '' views)'',
                 matchedInterests = None\<rparr>"
  using assms by (simp add: trendingEntry_def)

lemma getTrendingArticles_eq:
  "getTrendingArticles st limit =
     (if \<forall>i \<in> set (getAllInteractions st 1000 0). p_articleId i \<noteq> None then Inr []
      else Inl (Error (''Failed to get trending articles: '' @ nullToStringMessage)))"
proof (cases "\<forall>i \<in> set (getAllInteractions st 1000 0). p_articleId i \<noteq> None")
  case True
  from countInteractions_keys [OF True, of "[]"]
  obtain m' where m: "countInteractions [] (getAllInteractions st 1000 0) = Inr m'"
    and "fst ` set m' \<subseteq> {''[object Object]''}"
    by auto
  then have "List.map_filter (trendingEntry st) m' = []"
    by (simp add: no_trendingEntry)
  with True m show ?thesis
    by (simp add: getTrendingArticles_def sortDescending_def slice0_def)
next
  case False
  then have "\<exists>i \<in> set (getAllInteractions st 1000 0). p_articleId i = None"
    by simp
  from countInteractions_null [OF this, of "[]"] False show ?thesis
    by (simp add: getTrendingArticles_def)
qed

text \<open>
  C8. The Trending Aggregator is to fold the interactions into one counter per article and
  score each article \<open>likes * 3 + views\<close>. It keys the counters by
  \<^verbatim>\<open>interaction.articleId.toString()\<close>, where \<^verbatim>\<open>articleId\<close> is the populated object: every
  interaction falls under the key \<^verbatim>\<open>[object Object]\<close>, which resolves to no article. For
  every store and limit the list returned is empty; when one of the 1000 most recent
  interactions refers to an article that no longer exists, the call throws.
\<close>

theorem trending_lists_nothing:
  "getTrendingArticles st limit =
     (if \<forall>i \<in> set (getAllInteractions st 1000 0). p_articleId i \<noteq> None then Inr []
      else Inl (Error (''Failed to get trending articles: '' @ nullToStringMessage)))"
  by (rule getTrendingArticles_eq)

text \<open>
  An article with 3 likes and 5 views, which is to have trending score 14, is not listed;
  a store with an interaction on a missing article makes the call throw.
\<close>

theorem trending_lists_nothing_witness:
  "getArticleById engagedStore (oid 16) = Inr (Some popularArticle)
   \<and> likes (getInteractionStats engagedStore (oid 16)) = 3
   \<and> views (getInteractionStats engagedStore (oid 16)) = 5
   \<and> length (getAllInteractions engagedStore 1000 0) = 8
   \<and> list_all (\<lambda>i. p_articleId i = Some popularArticle) (getAllInteractions engagedStore 1000 0)
   \<and> getTrendingArticles engagedStore 5 = Inr []
   \<and> map p_articleId (getAllInteractions danglingStore 1000 0) = [None]
   \<and> getTrendingArticles danglingStore 5 =
       Inl (Error (''Failed to get trending articles: '' @ nullToStringMessage))"
proof -
  have a: "getArticleById engagedStore (oid 16) = Inr (Some popularArticle)"
    by code_simp
  have l: "likes (getInteractionStats engagedStore (oid 16)) = 3"
    by code_simp
  have v: "views (getInteractionStats engagedStore (oid 16)) = 5"
    by code_simp
  have n: "length (getAllInteractions engagedStore 1000 0) = 8"
    by code_simp
  have p: "list_all (\<lambda>i. p_articleId i = Some popularArticle) (getAllInteractions engagedStore 1000 0)"
    by code_simp
  have d: "map p_articleId (getAllInteractions danglingStore 1000 0) = [None]"
    by code_simp
  from p have p': "\<forall>i \<in> set (getAllInteractions engagedStore 1000 0). p_articleId i \<noteq> None"
    by (auto simp: list_all_iff)
  from d have d': "\<not> (\<forall>i \<in> set (getAllInteractions danglingStore 1000 0). p_articleId i \<noteq> None)"
    by (cases "getAllInteractions danglingStore 1000 0") auto
  show ?thesis
    using trending_lists_nothing [of engagedStore 5] trending_lists_nothing [of danglingStore 5]
    unfolding if_P [OF p'] if_not_P [OF d']
    by (simp add: a l v n p d)
qed

section \<open>Where the recommendations come from\<close>



section \<open>Viewed articles\<close>

lemma newest_page:
  assumes "sorted (map (\<lambda>x. - int (created x)) (xs @ ys))" and "length xs = n"
  shows "skipLimit 0 n (newestFirst created (xs @ ys)) = xs"
  using assms by (simp add: newestFirst_def skipLimit_def sort_key_id_if_sorted)

lemma sorted_descending_dates:
  "sorted ns \<Longrightarrow> sorted (map (\<lambda>n. - int (2000 - n)) ns)"
  by (induction ns) auto

text \<open>
  The exclusion set holds at most the string \<^verbatim>\<open>[object Object]\<close>, so in a store whose
  articles carry ObjectIds no article is excluded: the candidates are the whole page of
  articles, whatever the user has viewed.
\<close>

lemma no_article_excluded:
  assumes "viewedArticleIds st uid = Inr viewed"
    and "\<forall>a \<in> set (articles st). castsToObjectId (article_id a)"
  shows "viewed \<subseteq> {''[object Object]''}"
    and "unviewedArticles st viewed = getArticles st 1000 0"
proof -
  from viewedArticleIds_cases [of st uid] assms(1)
  show v: "viewed \<subseteq> {''[object Object]''}"
    by auto
  have n: "\<not> castsToObjectId ''[object Object]''"
    by (simp add: castsToObjectId_def)
  have "article_id a \<notin> viewed" if a: "a \<in> set (articles st)" for a
  proof
    assume "article_id a \<in> viewed"
    with v have "article_id a \<in> {''[object Object]''}"
      by (rule subsetD)
    then have "article_id a = ''[object Object]''"
      by (rule singletonD)
    moreover from assms(2) a have "castsToObjectId (article_id a)"
      by (rule bspec)
    ultimately show False
      using n by (simp only:)
  qed
  then have "\<forall>a \<in> set (articles st). article_id a \<notin> viewed"
    by (rule ballI)
  moreover have "set (getArticles st 1000 0) \<subseteq> set (articles st)"
    by (auto simp: getArticles_def skipLimit_def newestFirst_def dest!: in_set_takeD in_set_dropD)
  ultimately have "\<forall>a \<in> set (getArticles st 1000 0). article_id a \<notin> viewed"
    by blast
  then show "unviewedArticles st viewed = getArticles st 1000 0"
    by (simp add: unviewedArticles_def)
qed

text \<open>
  C3. The engine is to exclude every article the user has viewed. It does not for a user
  with more than 1000 interactions: here the user's first interaction is a view of an
  article, 1000 likes of other articles follow, only these are read, and the viewed article
  is recommended. Nor does it for a user with a single interaction, a view of the one
  article of the store: the exclusion set holds the string \<^verbatim>\<open>[object Object]\<close>, not the
  identifier of the article, and the viewed article is recommended.
\<close>

theorem viewed_article_recommended:
  "earlyView \<in> set (interactions cappedReaderStore)
   \<and> userId earlyView = oid 10
   \<and> interactionType earlyView = View
   \<and> articleId earlyView = oid 20
   \<and> map_sum (\<lambda>e. e) (\<lambda>response. recommendationIds (recommendations response))
        (getRecommendationsForUser toLowerCaseAscii cappedReaderStore (oid 10) 10) = Inr [oid 20]
   \<and> interactions readerStore = [earlyView]
   \<and> viewedArticleIds readerStore (oid 10) = Inr {''[object Object]''}
   \<and> map_sum (\<lambda>e. e) (\<lambda>response. recommendationIds (recommendations response))
        (getRecommendationsForUser toLowerCaseAscii readerStore (oid 10) 10) = Inr [oid 20]"
proof -
  let ?u = "\<lparr>user_id = oid 10, username = ''ada'', interests = [''tech'']\<rparr>"
  let ?r = "\<lparr>article = seenArticle, score = 7 / 2, reason = ''Matches your interests: tech'',
             matchedInterests = Some [''tech'']\<rparr>"
  have o: "castsToObjectId (oid 10)"
    by code_simp
  have u: "getUserById cappedReaderStore (oid 10) = Inr (Some ?u)"
    by (simp add: getUserById_def o cappedReaderStore_def)
  have "sorted (map (\<lambda>x. - int (interaction_createdAt x)) (map cappedLike [0..<1000] @ [earlyView]))"
    using sorted_descending_dates [of "[0..<1000]"]
    by (simp add: sorted_append o_def cappedLike_def earlyView_def del: upt_Suc)
  then have "skipLimit 0 1000 (newestFirst interaction_createdAt (map cappedLike [0..<1000] @ [earlyView]))
               = map cappedLike [0..<1000]"
    by (intro newest_page) simp_all
  moreover have "filter (\<lambda>i. userId i = oid 10) (interactions cappedReaderStore)
                   = map cappedLike [0..<1000] @ [earlyView]"
    by (simp add: cappedReaderStore_def filter_map o_def cappedLike_def earlyView_def del: upt_Suc)
  ultimately have "getInteractionsByUser cappedReaderStore (oid 10) 1000 0 =
                     map (populateArticleId cappedReaderStore) (map cappedLike [0..<1000])"
    by (simp only: getInteractionsByUser_def)
  then have "filter (\<lambda>i. p_interactionType i = View)
               (getInteractionsByUser cappedReaderStore (oid 10) 1000 0) = []"
    by (simp add: filter_map o_def populateArticleId_def cappedLike_def del: upt_Suc)
  then have v: "viewedArticleIds cappedReaderStore (oid 10) = Inr {}"
    by (simp add: viewedArticleIds_def)
  have "getArticles cappedReaderStore 1000 0 = [seenArticle]"
    by (simp add: getArticles_def skipLimit_def newestFirst_def cappedReaderStore_def)
  then have a: "unviewedArticles cappedReaderStore {} = [seenArticle]"
    by (simp add: unviewedArticles_def)
  have c: "interestBasedLimit 10 = 6"
    by code_simp
  have i: "getInterestBasedRecommendations toLowerCaseAscii ?u [seenArticle] 6 = [?r]"
    by code_simp
  have p: "popularityPass cappedReaderStore {} [?r] 9 = []"
    by (simp add: popularityPass_def a recommendationIds_def
          getPopularityBasedRecommendations_def articleStats_def sortDescending_def slice0_def)
  have "getRecommendationsForUser toLowerCaseAscii cappedReaderStore (oid 10) 10 =
          Inr \<lparr>recommendations = [?r], total = 1,
               user = \<lparr>ru_id = oid 10, ru_username = ''ada'', ru_interests = [''tech'']\<rparr>,
               metadata = \<lparr>interestBasedCount = 1, popularityBasedCount = 0,
                           algorithm = ''rule-based-v1''\<rparr>\<rparr>"
    by (simp add: getRecommendationsForUser_Some [OF u v] a c i p sortDescending_def slice0_def)
  then have capped: "earlyView \<in> set (interactions cappedReaderStore)
   \<and> userId earlyView = oid 10
   \<and> interactionType earlyView = View
   \<and> articleId earlyView = oid 20
   \<and> map_sum (\<lambda>e. e) (\<lambda>response. recommendationIds (recommendations response))
        (getRecommendationsForUser toLowerCaseAscii cappedReaderStore (oid 10) 10) = Inr [oid 20]"
    by (simp add: cappedReaderStore_def earlyView_def recommendationIds_def seenArticle_def)
  have r1: "interactions readerStore = [earlyView]"
    by (simp add: readerStore_def)
  have r2: "viewedArticleIds readerStore (oid 10) = Inr {''[object Object]''}"
    by code_simp
  have r3: "map_sum (\<lambda>e. e) (\<lambda>response. recommendationIds (recommendations response))
        (getRecommendationsForUser toLowerCaseAscii readerStore (oid 10) 10) = Inr [oid 20]"
    by code_simp
  from capped r1 r2 r3 show ?thesis
    by (intro conjI) simp_all
qed

text \<open>A view of an article that has since been deleted makes the call throw.\<close>

lemma view_of_missing_article_throws:
  "getUserById danglingStore (oid 10) =
     Inr (Some \<lparr>user_id = oid 10, username = ''ada'', interests = [''tech'']\<rparr>)
   \<and> map p_articleId (getInteractionsByUser danglingStore (oid 10) 1000 0) = [None]
   \<and> getRecommendationsForUser toLowerCaseAscii danglingStore (oid 10) 10 =
       Inl (Error (''Failed to generate recommendations: '' @ nullToStringMessage))"
  by code_simp

section \<open>No article twice\<close>









end
